theory Spec2Isabelle
  imports Main "HOL-Library.Sublist" "HOL-Library.AList" "HOL-Library.Char_ord"
    "HOL-Library.List_Lexorder"
begin

section \<open>JSON values\<close>

text \<open>
  The client talks JSON through Go's \<^verbatim>\<open>encoding/json\<close>. A JSON text is modelled by the
  value it denotes: an object keeps its members in the order of the text, repeated names
  included, because the decoder walks them in that order. A number is an integer literal
  (\<open>JNum\<close>) or a literal with a fraction or an exponent (\<open>JFloat\<close>, carrying the literal);
  the decoder into a Go \<^verbatim>\<open>int\<close> tells the two apart. A Go \<^verbatim>\<open>string\<close> is a sequence of bytes,
  which is what \<^typ>\<open>string\<close> is.
\<close>

datatype json =
    JNull
  | JBool bool
  | JNum int
  | JFloat string
  | JStr string
  | JArr "json list"
  | JObj "(string \<times> json) list"

subsection \<open>Strings on the way out: coercion to valid UTF-8\<close>

text \<open>
  \<^verbatim>\<open>utf8.DecodeRuneInString\<close>, reduced to the width it reports: the table \<^verbatim>\<open>first\<close> gives,
  for a lead byte, the length of the sequence and the range accepted for the second
  byte; every further byte must be a continuation byte \<^verbatim>\<open>0x80..0xBF\<close>. The width \<open>0\<close>
  stands for the answer \<^verbatim>\<open>(RuneError, 1)\<close> on an invalid sequence (and for the empty
  string).
\<close>

definition inrange :: "nat \<Rightarrow> nat \<Rightarrow> char \<Rightarrow> bool" where
  "inrange lo hi c \<longleftrightarrow> lo \<le> of_char c \<and> of_char c \<le> hi"

definition acceptRange :: "char \<Rightarrow> (nat \<times> nat \<times> nat) option" where
  "acceptRange c =
     (let b = (of_char c :: nat) in
      if 0xC2 \<le> b \<and> b \<le> 0xDF then Some (2, 0x80, 0xBF)
      else if b = 0xE0 then Some (3, 0xA0, 0xBF)
      else if (0xE1 \<le> b \<and> b \<le> 0xEC) \<or> b = 0xEE \<or> b = 0xEF then Some (3, 0x80, 0xBF)
      else if b = 0xED then Some (3, 0x80, 0x9F)
      else if b = 0xF0 then Some (4, 0x90, 0xBF)
      else if 0xF1 \<le> b \<and> b \<le> 0xF3 then Some (4, 0x80, 0xBF)
      else if b = 0xF4 then Some (4, 0x80, 0x8F)
      else None)"

fun rune_width :: "string \<Rightarrow> nat" where
  "rune_width [] = 0"
| "rune_width (c # cs) =
     (if (of_char c :: nat) < 0x80 then 1
      else case acceptRange c of
        None \<Rightarrow> 0
      | Some (sz, lo, hi) \<Rightarrow>
          if length cs + 1 < sz then 0
          else if \<not> inrange lo hi (cs ! 0) then 0
          else if sz \<le> 2 then 2
          else if \<not> inrange 0x80 0xBF (cs ! 1) then 0
          else if sz \<le> 3 then 3
          else if \<not> inrange 0x80 0xBF (cs ! 2) then 0
          else 4)"

text \<open>\<^verbatim>\<open>utf8.ValidString\<close>: the string is a sequence of well-formed runes.\<close>

fun ValidString :: "string \<Rightarrow> bool" where
  "ValidString [] = True"
| "ValidString (c # cs) =
     (case rune_width (c # cs) of 0 \<Rightarrow> False | Suc k \<Rightarrow> ValidString (drop k cs))"

text \<open>
  The encoder's \<^verbatim>\<open>appendString\<close> copies every well-formed rune and writes the
  replacement rune U+FFFD for every byte that starts none. Its escapes (quotes, control
  characters, \<^verbatim>\<open><\<close>, \<^verbatim>\<open>>\<close>, \<^verbatim>\<open>&\<close>, U+2028, U+2029) denote the character they escape, so
  the JSON string written for a Go string \<open>s\<close> denotes \<open>coerceUTF8 s\<close>.
\<close>

definition replacement :: string where
  "replacement = [CHR 0xEF, CHR 0xBF, CHR 0xBD]"

fun coerceUTF8 :: "string \<Rightarrow> string" where
  "coerceUTF8 [] = []"
| "coerceUTF8 (c # cs) =
     (case rune_width (c # cs) of
        0 \<Rightarrow> replacement @ coerceUTF8 cs
      | Suc k \<Rightarrow> c # take k cs @ coerceUTF8 (drop k cs))"

subsection \<open>Names on the way in: matching a member to a struct field\<close>

text \<open>
  The decoder looks a member name up among the field names exactly, and after that by
  its folded form (\<^verbatim>\<open>foldName\<close>): ASCII letters in upper case, every other rune replaced
  by the smallest rune of its case orbit. Two runes outside ASCII have an ASCII letter
  in their orbit: U+017F (bytes \<^verbatim>\<open>C5 BF\<close>) folds to \<^verbatim>\<open>S\<close> and U+212A (bytes \<^verbatim>\<open>E2 84 AA\<close>)
  to \<^verbatim>\<open>K\<close>. Every other rune outside ASCII folds to a rune outside ASCII; the model
  leaves its bytes as they are, which decides the comparison with the folded form of an
  ASCII field name the same way.
\<close>

fun foldName :: "string \<Rightarrow> string" where
  "foldName [] = []"
| "foldName (c # cs) =
     (let b = (of_char c :: nat) in
      if b < 0x80 then
        (if 97 \<le> b \<and> b \<le> 122 then char_of (b - 32) else c) # foldName cs
      else if c = CHR 0xC5 \<and> take 1 cs = [CHR 0xBF] then CHR ''S'' # foldName (drop 1 cs)
      else if c = CHR 0xE2 \<and> take 2 cs = [CHR 0x84, CHR 0xAA] then CHR ''K'' # foldName (drop 2 cs)
      else c # foldName cs)"

definition find_field :: "string list \<Rightarrow> string \<Rightarrow> string option" where
  "find_field names key =
     (case find (\<lambda>n. n = key) names of
        Some n \<Rightarrow> Some n
      | None \<Rightarrow> find (\<lambda>n. foldName n = foldName key) names)"

text \<open>
  Storing a JSON value into a field of a basic type: \<^verbatim>\<open>null\<close> leaves the field as it
  is, a value of the wrong kind leaves it too and is remembered as an
  \<^verbatim>\<open>UnmarshalTypeError\<close> (the flag \<open>False\<close>) that \<^verbatim>\<open>Unmarshal\<close> returns once the whole
  value is decoded. An \<^verbatim>\<open>int\<close> takes an integer literal that fits 64 bits.
\<close>

fun store_string :: "json \<Rightarrow> string \<Rightarrow> string \<times> bool" where
  "store_string (JStr s) old = (s, True)"
| "store_string JNull old = (old, True)"
| "store_string _ old = (old, False)"

fun store_bool :: "json \<Rightarrow> bool \<Rightarrow> bool \<times> bool" where
  "store_bool (JBool b) old = (b, True)"
| "store_bool JNull old = (old, True)"
| "store_bool _ old = (old, False)"

fun store_int :: "json \<Rightarrow> int \<Rightarrow> int \<times> bool" where
  "store_int (JNum n) old =
     (if - (2 ^ 63) \<le> n \<and> n < 2 ^ 63 then (n, True) else (old, False))"
| "store_int JNull old = (old, True)"
| "store_int _ old = (old, False)"

section \<open>The data model of the client\<close>

text \<open>A DNS record, with the JSON name of each field in its tag.\<close>

record Record =
  ID :: string
  Hostname :: string
  Type :: string
  Priority :: string
  Destination :: string
  DeleteRecord :: bool
  State :: string

definition Record_zero :: Record where
  "Record_zero = \<lparr>ID = [], Hostname = [], Type = [], Priority = [], Destination = [],
                   DeleteRecord = False, State = []\<rparr>"

definition Record_fields :: "string list" where
  "Record_fields =
     [''id'', ''hostname'', ''type'', ''priority'', ''destination'', ''deleterecord'', ''state'']"

text \<open>
  \<^verbatim>\<open>json.Marshal\<close> of a Record: one member per field, in the order of the declaration,
  none of them omitted (no tag says \<^verbatim>\<open>omitempty\<close>).
\<close>

definition marshal_Record :: "Record \<Rightarrow> json" where
  "marshal_Record r = JObj
     [(''id'', JStr (coerceUTF8 (ID r))),
      (''hostname'', JStr (coerceUTF8 (Hostname r))),
      (''type'', JStr (coerceUTF8 (Type r))),
      (''priority'', JStr (coerceUTF8 (Priority r))),
      (''destination'', JStr (coerceUTF8 (Destination r))),
      (''deleterecord'', JBool (DeleteRecord r)),
      (''state'', JStr (coerceUTF8 (State r)))]"

text \<open>\<^verbatim>\<open>json.Unmarshal\<close> into a Record: the members in turn, unknown names skipped.\<close>

definition set_Record :: "string \<Rightarrow> json \<Rightarrow> Record \<Rightarrow> Record \<times> bool" where
  "set_Record f v r =
     (if f = ''id'' then (let (s, ok) = store_string v (ID r) in (r\<lparr>ID := s\<rparr>, ok))
      else if f = ''hostname'' then
        (let (s, ok) = store_string v (Hostname r) in (r\<lparr>Hostname := s\<rparr>, ok))
      else if f = ''type'' then (let (s, ok) = store_string v (Type r) in (r\<lparr>Type := s\<rparr>, ok))
      else if f = ''priority'' then
        (let (s, ok) = store_string v (Priority r) in (r\<lparr>Priority := s\<rparr>, ok))
      else if f = ''destination'' then
        (let (s, ok) = store_string v (Destination r) in (r\<lparr>Destination := s\<rparr>, ok))
      else if f = ''deleterecord'' then
        (let (b, ok) = store_bool v (DeleteRecord r) in (r\<lparr>DeleteRecord := b\<rparr>, ok))
      else (let (s, ok) = store_string v (State r) in (r\<lparr>State := s\<rparr>, ok)))"

fun object_Record :: "(string \<times> json) list \<Rightarrow> Record \<times> bool \<Rightarrow> Record \<times> bool" where
  "object_Record [] st = st"
| "object_Record ((k, v) # kvs) (r, ok) =
     (case find_field Record_fields k of
        None \<Rightarrow> object_Record kvs (r, ok)
      | Some f \<Rightarrow> (let (r', ok') = set_Record f v r in object_Record kvs (r', ok \<and> ok')))"

fun value_Record :: "json \<Rightarrow> Record \<Rightarrow> Record \<times> bool" where
  "value_Record (JObj kvs) r = object_Record kvs (r, True)"
| "value_Record JNull r = (r, True)"
| "value_Record _ r = (r, False)"

datatype error =
    Errorf string
  | PostError string
  | ReadError string
  | SyntaxError
  | UnmarshalTypeError

definition unmarshal_Record :: "json \<Rightarrow> error + Record" where
  "unmarshal_Record j =
     (case value_Record j Record_zero of
        (r, True) \<Rightarrow> Inr r
      | (r, False) \<Rightarrow> Inl UnmarshalTypeError)"


text \<open>
  A slice of Records is the list of its elements and, behind them, the elements that its
  array still holds up to its capacity (\<open>spare\<close>). \<^verbatim>\<open>Unmarshal\<close> decodes item \<open>i\<close> of an
  array into element \<open>i\<close> of the array behind the slice, whatever that element holds, and
  into a zero Record where the array ends; it leaves a slice with one element for each
  item, what is left of the array being spare. An empty array makes a new empty slice,
  \<^verbatim>\<open>null\<close> the nil slice. For the slices the client returns and keeps, nil and empty are
  the same list here.
\<close>

fun decode_items :: "json list \<Rightarrow> Record list \<Rightarrow> (Record \<times> bool) list" where
  "decode_items [] held = []"
| "decode_items (j # js) [] = value_Record j Record_zero # decode_items js []"
| "decode_items (j # js) (r # held) = value_Record j r # decode_items js held"

fun value_Records ::
  "json \<Rightarrow> Record list \<times> Record list \<Rightarrow> (Record list \<times> Record list) \<times> bool" where
  "value_Records (JArr items) (elems, spare) =
     (if items = [] then (([], []), True)
      else (let rs = decode_items items (elems @ spare)
            in ((map fst rs, drop (length items) (elems @ spare)), list_all snd rs)))"
| "value_Records JNull s = (([], []), True)"
| "value_Records _ s = (s, False)"

text \<open>
  \<^verbatim>\<open>Marshal\<close> of the slice that UpdateRecords is given: \<^verbatim>\<open>null\<close> for the nil slice
  (\<open>None\<close>), an array else.
\<close>

definition marshal_Records :: "Record list option \<Rightarrow> json" where
  "marshal_Records rs =
     (case rs of None \<Rightarrow> JNull | Some xs \<Rightarrow> JArr (map marshal_Record xs))"

subsection \<open>The response envelope\<close>

text \<open>
  \<^verbatim>\<open>ResponseData\<close> is a \<^verbatim>\<open>*json.RawMessage\<close>: \<open>None\<close> is the nil pointer, which is what the
  field holds when the member is missing or \<^verbatim>\<open>null\<close>; any other value is kept undecoded.
\<close>

record responseBody =
  ServerRequestID :: string
  ClientRequestID :: string
  Action :: string
  Status :: string
  StatusCode :: int
  ShortMessage :: string
  LongMessage :: string
  ResponseData :: "json option"

definition responseBody_zero :: responseBody where
  "responseBody_zero = \<lparr>ServerRequestID = [], ClientRequestID = [], Action = [], Status = [],
     StatusCode = 0, ShortMessage = [], LongMessage = [], ResponseData = None\<rparr>"

definition responseBody_fields :: "string list" where
  "responseBody_fields =
     [''serverrequestid'', ''clientrequestid'', ''action'', ''status'', ''statuscode'',
      ''shortmessage'', ''longmessage'', ''responsedata'']"

definition set_responseBody :: "string \<Rightarrow> json \<Rightarrow> responseBody \<Rightarrow> responseBody \<times> bool" where
  "set_responseBody f v r =
     (if f = ''serverrequestid'' then
        (let (s, ok) = store_string v (ServerRequestID r) in (r\<lparr>ServerRequestID := s\<rparr>, ok))
      else if f = ''clientrequestid'' then
        (let (s, ok) = store_string v (ClientRequestID r) in (r\<lparr>ClientRequestID := s\<rparr>, ok))
      else if f = ''action'' then
        (let (s, ok) = store_string v (Action r) in (r\<lparr>Action := s\<rparr>, ok))
      else if f = ''status'' then
        (let (s, ok) = store_string v (Status r) in (r\<lparr>Status := s\<rparr>, ok))
      else if f = ''statuscode'' then
        (let (n, ok) = store_int v (StatusCode r) in (r\<lparr>StatusCode := n\<rparr>, ok))
      else if f = ''shortmessage'' then
        (let (s, ok) = store_string v (ShortMessage r) in (r\<lparr>ShortMessage := s\<rparr>, ok))
      else if f = ''longmessage'' then
        (let (s, ok) = store_string v (LongMessage r) in (r\<lparr>LongMessage := s\<rparr>, ok))
      else (r\<lparr>ResponseData := (if v = JNull then None else Some v)\<rparr>, True))"

fun object_responseBody ::
  "(string \<times> json) list \<Rightarrow> responseBody \<times> bool \<Rightarrow> responseBody \<times> bool" where
  "object_responseBody [] st = st"
| "object_responseBody ((k, v) # kvs) (r, ok) =
     (case find_field responseBody_fields k of
        None \<Rightarrow> object_responseBody kvs (r, ok)
      | Some f \<Rightarrow>
          (let (r', ok') = set_responseBody f v r in object_responseBody kvs (r', ok \<and> ok')))"

fun value_responseBody :: "json \<Rightarrow> responseBody \<Rightarrow> responseBody \<times> bool" where
  "value_responseBody (JObj kvs) r = object_responseBody kvs (r, True)"
| "value_responseBody JNull r = (r, True)"
| "value_responseBody _ r = (r, False)"

definition unmarshal_responseBody :: "json \<Rightarrow> error + responseBody" where
  "unmarshal_responseBody j =
     (case value_responseBody j responseBody_zero of
        (r, True) \<Rightarrow> Inr r
      | (r, False) \<Rightarrow> Inl UnmarshalTypeError)"

subsection \<open>The payloads of login and of the record operations\<close>

record loginResponse =
  APISessionID :: string

fun object_loginResponse ::
  "(string \<times> json) list \<Rightarrow> loginResponse \<times> bool \<Rightarrow> loginResponse \<times> bool" where
  "object_loginResponse [] st = st"
| "object_loginResponse ((k, v) # kvs) (r, ok) =
     (case find_field [''apisessionid''] k of
        None \<Rightarrow> object_loginResponse kvs (r, ok)
      | Some f \<Rightarrow>
          (let (s, ok') = store_string v (APISessionID r)
           in object_loginResponse kvs (r\<lparr>APISessionID := s\<rparr>, ok \<and> ok')))"

fun value_loginResponse :: "json \<Rightarrow> loginResponse \<Rightarrow> loginResponse \<times> bool" where
  "value_loginResponse (JObj kvs) r = object_loginResponse kvs (r, True)"
| "value_loginResponse JNull r = (r, True)"
| "value_loginResponse _ r = (r, False)"

definition unmarshal_loginResponse :: "json \<Rightarrow> error + loginResponse" where
  "unmarshal_loginResponse j =
     (case value_loginResponse j \<lparr>APISessionID = []\<rparr> of
        (r, True) \<Rightarrow> Inr r
      | (r, False) \<Rightarrow> Inl UnmarshalTypeError)"

record recordsResponse =
  DNSRecords :: "Record list"

fun object_recordsResponse ::
  "(string \<times> json) list \<Rightarrow> recordsResponse \<times> Record list \<times> bool \<Rightarrow>
     recordsResponse \<times> Record list \<times> bool" where
  "object_recordsResponse [] st = st"
| "object_recordsResponse ((k, v) # kvs) (r, spare, ok) =
     (case find_field [''dnsrecords''] k of
        None \<Rightarrow> object_recordsResponse kvs (r, spare, ok)
      | Some f \<Rightarrow>
          (let ((rs, spare'), ok') = value_Records v (DNSRecords r, spare)
           in object_recordsResponse kvs (r\<lparr>DNSRecords := rs\<rparr>, spare', ok \<and> ok')))"

fun value_recordsResponse ::
  "json \<Rightarrow> recordsResponse \<times> Record list \<Rightarrow> recordsResponse \<times> Record list \<times> bool" where
  "value_recordsResponse (JObj kvs) (r, spare) = object_recordsResponse kvs (r, spare, True)"
| "value_recordsResponse JNull (r, spare) = (r, spare, True)"
| "value_recordsResponse _ (r, spare) = (r, spare, False)"

definition unmarshal_recordsResponse :: "json \<Rightarrow> error + recordsResponse" where
  "unmarshal_recordsResponse j =
     (case value_recordsResponse j (\<lparr>DNSRecords = []\<rparr>, []) of
        (r, spare, True) \<Rightarrow> Inr r
      | (r, spare, False) \<Rightarrow> Inl UnmarshalTypeError)"

section \<open>Building a request\<close>

text \<open>
  \<^verbatim>\<open>request\<close> is not exported: the parameter it is given is nil or one of the three
  anonymous structs its callers build. \<^verbatim>\<open>Marshal\<close> writes the fields of a struct in the
  order of the declaration. It has no error for values made of strings, integers,
  booleans, slices and maps, so that the two returns of \<^verbatim>\<open>request\<close> on an error of
  \<^verbatim>\<open>Marshal\<close> are never taken and have no branch below.
\<close>

datatype param =
    LoginParam string
  | InfoParam string
  | UpdateParam string "Record list option"

fun marshal_param :: "param \<Rightarrow> json" where
  "marshal_param (LoginParam apiPassword) =
     JObj [(''apipassword'', JStr (coerceUTF8 apiPassword))]"
| "marshal_param (InfoParam domainname) =
     JObj [(''domainname'', JStr (coerceUTF8 domainname))]"
| "marshal_param (UpdateParam domainname rs) =
     JObj [(''domainname'', JStr (coerceUTF8 domainname)),
           (''dnsrecordset'', JObj [(''dnsrecords'', marshal_Records rs)])]"

text \<open>
  \<^verbatim>\<open>paramMap\<close> is a \<^verbatim>\<open>map[string]interface{}\<close>: an association list with one entry for a
  key, \<open>None\<close> for the nil map. Its values are what \<^verbatim>\<open>Unmarshal\<close> stored (\<open>Decoded\<close>) and
  the Go values the client adds itself.
\<close>

datatype goval =
    Decoded json
  | GoInt int
  | GoString string

type_synonym gomap = "(string \<times> goval) list"

fun value_map :: "json \<Rightarrow> gomap option \<Rightarrow> gomap option \<times> bool" where
  "value_map (JObj kvs) m =
     (Some (fold (\<lambda>(k, v). AList.update k (Decoded v)) kvs (case m of None \<Rightarrow> [] | Some m' \<Rightarrow> m')),
      True)"
| "value_map JNull m = (None, True)"
| "value_map _ m = (m, False)"

text \<open>
  \<^verbatim>\<open>Marshal\<close> writes a map with its keys sorted. A value that \<^verbatim>\<open>Unmarshal\<close> stored as an
  \<^verbatim>\<open>interface{}\<close> holds maps for objects, so that the objects inside it come out with one
  member for a name, sorted too. (A number would come back as a \<^verbatim>\<open>float64\<close>; no parameter
  of this client holds one, and the model leaves a number as it is.)
\<close>

primrec remarshal :: "json \<Rightarrow> json" where
  "remarshal JNull = JNull"
| "remarshal (JBool b) = JBool b"
| "remarshal (JNum n) = JNum n"
| "remarshal (JFloat l) = JFloat l"
| "remarshal (JStr s) = JStr s"
| "remarshal (JArr xs) = JArr (map remarshal xs)"
| "remarshal (JObj kvs) =
     JObj (sort_key fst (fold (\<lambda>(k, v). AList.update k v) (map (map_prod id remarshal) kvs) []))"

fun marshal_goval :: "goval \<Rightarrow> json" where
  "marshal_goval (Decoded j) = remarshal j"
| "marshal_goval (GoInt n) = JNum n"
| "marshal_goval (GoString s) = JStr (coerceUTF8 s)"

record requestBody =
  Action :: string
  Param :: gomap

definition marshal_requestBody :: "requestBody \<Rightarrow> json" where
  "marshal_requestBody rq =
     JObj [(''action'', JStr (coerceUTF8 (requestBody.Action rq))),
           (''param'', JObj (sort_key fst (map (map_prod id marshal_goval) (Param rq))))]"

section \<open>The transport\<close>

text \<open>
  What \<^verbatim>\<open>httpClient.Post\<close> and \<^verbatim>\<open>ioutil.ReadAll\<close> give back for a request: an error of
  either, or the body, taken by what \<^verbatim>\<open>Unmarshal\<close> finds in it: no JSON text, or the text of
  a JSON value. The outside world answers as a function of what was posted before, the
  transport handle, the URL and the body posted, and keeps the log of the posts.
\<close>

datatype body = NotJSON | JSON json

datatype reply = PostFails string | ReadFails string | Responds body

record world =
  respond :: "(string \<times> json) list \<Rightarrow> nat \<Rightarrow> string \<Rightarrow> json \<Rightarrow> reply"
  posted :: "(string \<times> json) list"

definition Post :: "world \<Rightarrow> nat \<Rightarrow> string \<Rightarrow> json \<Rightarrow> reply \<times> world" where
  "Post w h url buf = (respond w (posted w) h url buf, w\<lparr>posted := posted w @ [(url, buf)]\<rparr>)"

section \<open>The client\<close>

record Client =
  customerNumber :: int
  apiKey :: string
  sessionID :: string
  endpoint :: string
  httpClient :: nat
  domainName :: string
  records :: "Record list"

definition const_endpoint :: string where
  "const_endpoint = ''https://ccp.netcup.net/run/webservice/servers/endpoint.php?JSON''"

text \<open>\<^verbatim>\<open>NewClient\<close>; \<open>h\<close> is the address of the \<^verbatim>\<open>http.Client\<close> it allocates.\<close>

definition NewClient :: "nat \<Rightarrow> int \<Rightarrow> string \<Rightarrow> Client" where
  "NewClient h n key =
     \<lparr>customerNumber = n, apiKey = key, sessionID = [], endpoint = const_endpoint,
      httpClient = h, domainName = [], records = []\<rparr>"

text \<open>
  A call returns a value, returns an error, or panics. The two panics the package can
  raise are the write to a nil map and the read through a nil pointer.
\<close>

datatype panic = NilMapAssignment | NilPointerDereference

datatype 'a result = Ok 'a | Err error | Panic panic

definition no_session :: error where
  "no_session = Errorf ''no session ID. Make sure to login first''"

definition request_failed :: "string \<Rightarrow> string \<Rightarrow> error" where
  "request_failed action longMessage =
     Errorf (''Request '' @ [CHR 0x22] @ action @ [CHR 0x22] @ '' failed: '' @ longMessage)"

text \<open>
  The parameter flattened into \<^verbatim>\<open>paramMap\<close>, which starts as the empty map: nothing to do
  for nil, else \<^verbatim>\<open>Marshal\<close> and \<^verbatim>\<open>Unmarshal\<close> into the map. Then the common fields
  (\<open>common\<close>), the session token only when there is one.
\<close>

definition flatten :: "param option \<Rightarrow> gomap option \<times> bool" where
  "flatten p =
     (case p of
        None \<Rightarrow> (Some [], True)
      | Some x \<Rightarrow> value_map (marshal_param x) (Some []))"

definition common :: "Client \<Rightarrow> gomap \<Rightarrow> gomap" where
  "common c m =
     (let m1 = AList.update ''customernumber'' (GoInt (customerNumber c)) m;
          m2 = AList.update ''apikey'' (GoString (apiKey c)) m1
      in if sessionID c \<noteq> [] then AList.update ''apisessionid'' (GoString (sessionID c)) m2
         else m2)"

text \<open>
  What \<^verbatim>\<open>request\<close> makes of the answer: the errors of the transport and of the decoder as
  they come, the error of a status code other than 2000, or the payload undecoded.
\<close>

definition read_response :: "string \<Rightarrow> reply \<Rightarrow> json option result" where
  "read_response action r =
     (case r of
        PostFails e \<Rightarrow> Err (PostError e)
      | ReadFails e \<Rightarrow> Err (ReadError e)
      | Responds NotJSON \<Rightarrow> Err SyntaxError
      | Responds (JSON j) \<Rightarrow>
          (case unmarshal_responseBody j of
             Inl e \<Rightarrow> Err e
           | Inr rb \<Rightarrow>
               if StatusCode rb \<noteq> 2000 then Err (request_failed action (LongMessage rb))
               else Ok (ResponseData rb)))"

definition request ::
  "Client \<Rightarrow> world \<Rightarrow> string \<Rightarrow> param option \<Rightarrow> json option result \<times> world" where
  "request c w action p =
     (if sessionID c = [] \<and> action \<noteq> ''login'' then (Err no_session, w)
      else case flatten p of
        (_, False) \<Rightarrow> (Err UnmarshalTypeError, w)
      | (None, True) \<Rightarrow> (Panic NilMapAssignment, w)
      | (Some paramMap, True) \<Rightarrow>
          (case Post w (httpClient c) (endpoint c)
                  (marshal_requestBody \<lparr>Action = action, Param = common c paramMap\<rparr>) of
             (r, w') \<Rightarrow> (read_response action r, w')))"

text \<open>
  The four operations. Each gives back its result, the client and the world. The payload
  \<^verbatim>\<open>buf\<close> is read as \<^verbatim>\<open>*buf\<close> with no test for nil.
\<close>

definition Login :: "Client \<Rightarrow> world \<Rightarrow> string \<Rightarrow> unit result \<times> Client \<times> world" where
  "Login c w apiPassword =
     (case request c w ''login'' (Some (LoginParam apiPassword)) of
        (Err e, w') \<Rightarrow> (Err e, c, w')
      | (Panic x, w') \<Rightarrow> (Panic x, c, w')
      | (Ok None, w') \<Rightarrow> (Panic NilPointerDereference, c, w')
      | (Ok (Some buf), w') \<Rightarrow>
          (case unmarshal_loginResponse buf of
             Inl e \<Rightarrow> (Err e, c, w')
           | Inr responseData \<Rightarrow> (Ok (), c\<lparr>sessionID := APISessionID responseData\<rparr>, w')))"

definition Logout :: "Client \<Rightarrow> world \<Rightarrow> unit result \<times> Client \<times> world" where
  "Logout c w =
     (case request c w ''logout'' None of
        (Err e, w') \<Rightarrow> (Err e, c, w')
      | (Panic x, w') \<Rightarrow> (Panic x, c, w')
      | (Ok _, w') \<Rightarrow> (Ok (), c\<lparr>sessionID := []\<rparr>, w'))"

definition GetRecords ::
  "Client \<Rightarrow> world \<Rightarrow> string \<Rightarrow> Record list result \<times> Client \<times> world" where
  "GetRecords c w domainname =
     (case request c w ''infoDnsRecords'' (Some (InfoParam domainname)) of
        (Err e, w') \<Rightarrow> (Err e, c, w')
      | (Panic x, w') \<Rightarrow> (Panic x, c, w')
      | (Ok None, w') \<Rightarrow> (Panic NilPointerDereference, c, w')
      | (Ok (Some buf), w') \<Rightarrow>
          (case unmarshal_recordsResponse buf of
             Inl e \<Rightarrow> (Err e, c, w')
           | Inr responseData \<Rightarrow>
               (Ok (DNSRecords responseData), c\<lparr>records := DNSRecords responseData\<rparr>, w')))"

definition UpdateRecords ::
  "Client \<Rightarrow> world \<Rightarrow> string \<Rightarrow> Record list option \<Rightarrow>
     Record list result \<times> Client \<times> world" where
  "UpdateRecords c w domainname rs =
     (case request c w ''updateDnsRecords'' (Some (UpdateParam domainname rs)) of
        (Err e, w') \<Rightarrow> (Err e, c, w')
      | (Panic x, w') \<Rightarrow> (Panic x, c, w')
      | (Ok None, w') \<Rightarrow> (Panic NilPointerDereference, c, w')
      | (Ok (Some buf), w') \<Rightarrow>
          (case unmarshal_recordsResponse buf of
             Inl e \<Rightarrow> (Err e, c, w')
           | Inr responseData \<Rightarrow>
               (Ok (DNSRecords responseData), c\<lparr>records := DNSRecords responseData\<rparr>, w')))"

section \<open>The test harness\<close>

text \<open>
  The tests set a client up with customer number 1234 and the key \<^verbatim>\<open>key\<close>, point it at a
  stand-in server that answers every request with one fixed body, and fake a login by
  writing the session token.
\<close>

definition client :: Client where
  "client = (NewClient 0 1234 ''key'')\<lparr>endpoint := ''http://127.0.0.1''\<rparr>"

definition logged_in :: Client where
  "logged_in = client\<lparr>sessionID := ''thisisasessionid''\<rparr>"

definition server :: "json \<Rightarrow> world" where
  "server j = \<lparr>respond = (\<lambda>_ _ _ _. Responds (JSON j)), posted = []\<rparr>"

definition envelope :: "string \<Rightarrow> int \<Rightarrow> string \<Rightarrow> string \<Rightarrow> json \<Rightarrow> json" where
  "envelope action code short long payload = JObj
     [(''serverrequestid'', JStr []), (''clientrequestid'', JStr []), (''action'', JStr action),
      (''status'', JStr ''success''), (''statuscode'', JNum code), (''shortmessage'', JStr short),
      (''longmessage'', JStr long), (''responsedata'', payload)]"

definition login_response :: json where
  "login_response =
     envelope ''login'' 2000 ''Login successful'' ''Session has been created successful.''
       (JObj [(''apisessionid'', JStr ''thisisasessionid'')])"

definition logout_response :: json where
  "logout_response =
     envelope ''logout'' 2000 ''Logout successful'' ''Session has been terminated successful.''
       (JStr [])"

definition dnsrecord :: "string \<Rightarrow> string \<Rightarrow> string \<Rightarrow> string \<Rightarrow> string \<Rightarrow> json" where
  "dnsrecord i h t p d = JObj
     [(''id'', JStr i), (''hostname'', JStr h), (''type'', JStr t), (''priority'', JStr p),
      (''destination'', JStr d), (''deleterecord'', JBool False), (''state'', JStr ''yes'')]"

definition dnsrecords_payload :: json where
  "dnsrecords_payload = JObj
     [(''dnsrecords'', JArr
        [dnsrecord ''123451'' ''@'' ''A'' ''0'' ''127.0.0.1'',
         dnsrecord ''123452'' ''@'' ''MX'' ''10'' ''mail.example.com'',
         dnsrecord ''123453'' ''mail'' ''AAAA'' ''0'' ''1234:5678:90ab:cdef::1'',
         dnsrecord ''123454'' ''mail'' ''A'' ''0'' ''127.0.0.1'',
         dnsrecord ''123455'' ''www'' ''CNAME'' ''0'' ''@''])]"

definition infoDnsRecords_response :: json where
  "infoDnsRecords_response =
     envelope ''infoDnsRecords'' 2000 ''DNS records found''
       ''DNS Records for this zone were found.'' dnsrecords_payload"

definition wantRecord :: "string \<Rightarrow> string \<Rightarrow> string \<Rightarrow> string \<Rightarrow> string \<Rightarrow> Record" where
  "wantRecord i h t p d =
     \<lparr>ID = i, Hostname = h, Type = t, Priority = p, Destination = d, DeleteRecord = False,
      State = ''yes''\<rparr>"

definition wantRecords :: "Record list" where
  "wantRecords =
     [wantRecord ''123451'' ''@'' ''A'' ''0'' ''127.0.0.1'',
      wantRecord ''123452'' ''@'' ''MX'' ''10'' ''mail.example.com'',
      wantRecord ''123453'' ''mail'' ''AAAA'' ''0'' ''1234:5678:90ab:cdef::1'',
      wantRecord ''123454'' ''mail'' ''A'' ''0'' ''127.0.0.1'',
      wantRecord ''123455'' ''www'' ''CNAME'' ''0'' ''@'']"

definition updateRecord :: Record where
  "updateRecord = wantRecord [] ''@'' ''TXT'' ''0'' ''test''"

text \<open>An answer the tests do not have: a failure.\<close>

definition failure_response :: json where
  "failure_response =
     envelope ''login'' 4013 ''Validation Error.'' ''The session id is not in a valid format.''
       (JStr [])"

text \<open>
  Answers the tests do not have: a success with no payload, a login whose payload spells
  the name of the token in capitals, and a login whose payload holds an empty token.
\<close>

definition no_payload_response :: json where
  "no_payload_response =
     envelope ''login'' 2000 ''Login successful'' ''Session has been created successful.'' JNull"

definition upper_case_login_response :: json where
  "upper_case_login_response =
     envelope ''login'' 2000 ''Login successful'' ''Session has been created successful.''
       (JObj [(''APISESSIONID'', JStr ''thisisasessionid'')])"

definition empty_login_response :: json where
  "empty_login_response =
     envelope ''login'' 2000 ''Login successful'' ''Session has been created successful.''
       (JObj [(''sessionid'', JStr ''thisisasessionid''), (''apisessionid'', JStr [])])"




text \<open>
  Two failures whose envelope does not decode: one with a number where the status text
  belongs, one with a status code beyond the range of \<^verbatim>\<open>int\<close>.
\<close>

definition ill_typed_response :: json where
  "ill_typed_response = JObj
     [(''action'', JStr ''login''), (''status'', JNum 1), (''statuscode'', JNum 4013),
      (''longmessage'', JStr ''bad'')]"

definition oversized_status_response :: json where
  "oversized_status_response = JObj
     [(''action'', JStr ''login''), (''status'', JStr ''error''),
      (''statuscode'', JNum 9223372036854775808), (''longmessage'', JStr ''bad'')]"

section \<open>Strings that survive the encoder\<close>

lemma rune_width_le: "rune_width (c # cs) = Suc k \<Longrightarrow> k \<le> length cs"
  by (auto simp: acceptRange_def Let_def Suc_le_eq split: if_splits option.splits)

lemma rune_width_replacement: "rune_width (CHR 0xEF # CHR 0xBF # CHR 0xBD # cs) = 3"
  by (simp add: acceptRange_def inrange_def)

text \<open>The encoder leaves a string as it is exactly when the string is valid UTF-8.\<close>

lemma coerceUTF8_id_iff: "coerceUTF8 s = s \<longleftrightarrow> ValidString s"
proof (induction s rule: coerceUTF8.induct)
  case 1
  show ?case by simp
next
  case (2 c cs)
  show ?case
  proof (cases "rune_width (c # cs)")
    case 0
    have "replacement @ coerceUTF8 cs \<noteq> c # cs"
    proof
      assume "replacement @ coerceUTF8 cs = c # cs"
      then have "c # cs = CHR 0xEF # CHR 0xBF # CHR 0xBD # coerceUTF8 cs"
        by (simp add: replacement_def)
      then have "rune_width (c # cs) = 3"
        using rune_width_replacement by metis
      with 0 show False by simp
    qed
    with 0 show ?thesis by simp
  next
    case (Suc k)
    then have k: "k \<le> length cs" by (rule rune_width_le)
    have "take k cs @ coerceUTF8 (drop k cs) = cs \<longleftrightarrow> coerceUTF8 (drop k cs) = drop k cs"
      using k by (metis append_take_drop_id same_append_eq)
    with Suc 2(2)[OF Suc] show ?thesis by simp
  qed
qed

section \<open>The Record on the wire\<close>

lemma unmarshal_marshal_Record:
  "unmarshal_Record (marshal_Record r) =
     Inr \<lparr>ID = coerceUTF8 (ID r), Hostname = coerceUTF8 (Hostname r), Type = coerceUTF8 (Type r),
          Priority = coerceUTF8 (Priority r), Destination = coerceUTF8 (Destination r),
          DeleteRecord = DeleteRecord r, State = coerceUTF8 (State r)\<rparr>"
  by (simp add: unmarshal_Record_def marshal_Record_def find_field_def Record_fields_def
      set_Record_def Record_zero_def)

text \<open>
  Claim C6, as amended. Encoding a Record and decoding the JSON written gives back a Record
  equal to the first in all seven fields exactly when its six string fields are valid
  UTF-8: the encoder replaces every byte that is not part of a well-formed rune by U+FFFD.
\<close>

theorem Record_roundtrip_iff:
  "unmarshal_Record (marshal_Record r) = Inr r \<longleftrightarrow>
     ValidString (ID r) \<and> ValidString (Hostname r) \<and> ValidString (Type r) \<and>
     ValidString (Priority r) \<and> ValidString (Destination r) \<and> ValidString (State r)"
proof -
  have "unmarshal_Record (marshal_Record r) = Inr r \<longleftrightarrow>
      coerceUTF8 (ID r) = ID r \<and> coerceUTF8 (Hostname r) = Hostname r \<and>
      coerceUTF8 (Type r) = Type r \<and> coerceUTF8 (Priority r) = Priority r \<and>
      coerceUTF8 (Destination r) = Destination r \<and> coerceUTF8 (State r) = State r"
    unfolding unmarshal_marshal_Record by (cases r) auto
  then show ?thesis by (simp only: coerceUTF8_id_iff)
qed

text \<open>The record that the update test sends round-trips.\<close>

theorem Record_roundtrip_witness:
  "unmarshal_Record (marshal_Record
      \<lparr>ID = [], Hostname = ''@'', Type = ''TXT'', Priority = ''0'', Destination = ''test'',
        DeleteRecord = False, State = ''yes''\<rparr>) =
    Inr \<lparr>ID = [], Hostname = ''@'', Type = ''TXT'', Priority = ''0'', Destination = ''test'',
        DeleteRecord = False, State = ''yes''\<rparr>"
  using Record_roundtrip_iff [of "\<lparr>ID = [], Hostname = ''@'', Type = ''TXT'', Priority = ''0'',
        Destination = ''test'', DeleteRecord = False, State = ''yes''\<rparr>"]
  by simp

text \<open>
  Claim C6, as stated, fails: a Record whose id is the single byte \<^verbatim>\<open>0xFF\<close> comes back
  with the id U+FFFD (the bytes \<^verbatim>\<open>EF BF BD\<close>).
\<close>

theorem Record_roundtrip_counterexample:
  "unmarshal_Record (marshal_Record
      \<lparr>ID = [CHR 0xFF], Hostname = [], Type = [], Priority = [], Destination = [],
        DeleteRecord = False, State = []\<rparr>) \<noteq>
    Inr \<lparr>ID = [CHR 0xFF], Hostname = [], Type = [], Priority = [], Destination = [],
        DeleteRecord = False, State = []\<rparr>"
  by (simp add: unmarshal_marshal_Record acceptRange_def replacement_def)

text \<open>
  Claim C7. The JSON written for a Record has the seven members \<^verbatim>\<open>id\<close>, \<^verbatim>\<open>hostname\<close>,
  \<^verbatim>\<open>type\<close>, \<^verbatim>\<open>priority\<close>, \<^verbatim>\<open>destination\<close>, \<^verbatim>\<open>deleterecord\<close>, \<^verbatim>\<open>state\<close>, each of them once
  whatever the values of the fields, and no other member.
\<close>

theorem Record_keys:
  "\<exists>kvs. marshal_Record r = JObj kvs \<and>
     map fst kvs =
       [''id'', ''hostname'', ''type'', ''priority'', ''destination'', ''deleterecord'', ''state'']"
  by (simp add: marshal_Record_def)

section \<open>The model against the tests\<close>

text \<open>
  The four tests of the package, run on the model: the body each test wants to see posted
  is the body posted, and the result it wants is the result.
\<close>

lemma TestLogin:
  "Login client (server login_response) ''password'' =
     (Ok (), logged_in,
      (server login_response)\<lparr>posted :=
         [(''http://127.0.0.1'', JObj
            [(''action'', JStr ''login''),
             (''param'', JObj
                [(''apikey'', JStr ''key''), (''apipassword'', JStr ''password''),
                 (''customernumber'', JNum 1234)])])]\<rparr>)"
  by (simp add: Login_def request_def client_def logged_in_def NewClient_def flatten_def
      common_def Post_def marshal_requestBody_def server_def read_response_def
      login_response_def envelope_def unmarshal_responseBody_def find_field_def
      responseBody_fields_def set_responseBody_def responseBody_zero_def
      unmarshal_loginResponse_def)

lemma TestLogout:
  "Logout logged_in (server logout_response) =
     (Ok (), client,
      (server logout_response)\<lparr>posted :=
         [(''http://127.0.0.1'', JObj
            [(''action'', JStr ''logout''),
             (''param'', JObj
                [(''apikey'', JStr ''key''), (''apisessionid'', JStr ''thisisasessionid''),
                 (''customernumber'', JNum 1234)])])]\<rparr>)"
  by (simp add: Logout_def request_def client_def logged_in_def NewClient_def flatten_def
      common_def Post_def marshal_requestBody_def server_def read_response_def
      logout_response_def envelope_def unmarshal_responseBody_def find_field_def
      responseBody_fields_def set_responseBody_def responseBody_zero_def)

lemma TestInfoDNSRecords:
  "fst (GetRecords logged_in (server infoDnsRecords_response) ''example.com'') = Ok wantRecords \<and>
   posted (snd (snd (GetRecords logged_in (server infoDnsRecords_response) ''example.com''))) =
     [(''http://127.0.0.1'', JObj
        [(''action'', JStr ''infoDnsRecords''),
         (''param'', JObj
            [(''apikey'', JStr ''key''), (''apisessionid'', JStr ''thisisasessionid''),
             (''customernumber'', JNum 1234), (''domainname'', JStr ''example.com'')])])]"
  by code_simp

lemma TestUpdateDNSRecords:
  "fst (UpdateRecords logged_in (server infoDnsRecords_response) ''example.com'' (Some [updateRecord])) =
     Ok wantRecords \<and>
   posted (snd (snd (UpdateRecords logged_in (server infoDnsRecords_response) ''example.com''
     (Some [updateRecord])))) =
     [(''http://127.0.0.1'', JObj
        [(''action'', JStr ''updateDnsRecords''),
         (''param'', JObj
            [(''apikey'', JStr ''key''), (''apisessionid'', JStr ''thisisasessionid''),
             (''customernumber'', JNum 1234),
             (''dnsrecordset'', JObj
                [(''dnsrecords'', JArr
                   [JObj
                      [(''deleterecord'', JBool False), (''destination'', JStr ''test''),
                       (''hostname'', JStr ''@''), (''id'', JStr []), (''priority'', JStr ''0''),
                       (''state'', JStr ''yes''), (''type'', JStr ''TXT'')]])]),
             (''domainname'', JStr ''example.com'')])])]"
  by code_simp

section \<open>Dispatch\<close>

lemma flatten_Some: "\<exists>m. flatten p = (Some m, True)"
proof (cases p)
  case None
  then show ?thesis by (simp add: flatten_def)
next
  case (Some x)
  then show ?thesis by (cases x) (simp_all add: flatten_def)
qed

lemma request_no_session:
  "sessionID c = [] \<Longrightarrow> action \<noteq> ''login'' \<Longrightarrow> request c w action p = (Err no_session, w)"
  by (simp add: request_def)

lemma request_dispatch:
  assumes "sessionID c \<noteq> [] \<or> action = ''login''" and "flatten p = (Some m, True)"
  shows "request c w action p =
     (read_response action (respond w (posted w) (httpClient c) (endpoint c)
        (marshal_requestBody \<lparr>Action = action, Param = common c m\<rparr>)),
      w\<lparr>posted := posted w @
        [(endpoint c, marshal_requestBody \<lparr>Action = action, Param = common c m\<rparr>)]\<rparr>)"
  using assms by (auto simp: request_def Post_def)

text \<open>
  Claim C1. With an empty session token, \<^verbatim>\<open>request\<close> for any action other than
  \<^verbatim>\<open>login\<close> returns the error \<^verbatim>\<open>no session ID. Make sure to login first\<close> and leaves the
  world as it was, nothing posted; so do Logout, GetRecords and UpdateRecords, which
  return the client untouched. For the action \<^verbatim>\<open>login\<close> the request is posted all the
  same.
\<close>

theorem no_session_no_call:
  "sessionID c = [] \<longrightarrow>
     (action \<noteq> ''login'' \<longrightarrow> request c w action p = (Err no_session, w)) \<and>
     Logout c w = (Err no_session, c, w) \<and>
     GetRecords c w d = (Err no_session, c, w) \<and>
     UpdateRecords c w d rs = (Err no_session, c, w) \<and>
     (\<exists>m. flatten p = (Some m, True) \<and>
        posted (snd (request c w ''login'' p)) = posted w @
          [(endpoint c, marshal_requestBody \<lparr>Action = ''login'', Param = common c m\<rparr>)])"
proof (intro impI conjI)
  assume e: "sessionID c = []"
  show "request c w action p = (Err no_session, w)" if "action \<noteq> ''login''"
    using e that by (rule request_no_session)
  show "Logout c w = (Err no_session, c, w)"
    using e by (simp add: Logout_def request_no_session)
  show "GetRecords c w d = (Err no_session, c, w)"
    using e by (simp add: GetRecords_def request_no_session)
  show "UpdateRecords c w d rs = (Err no_session, c, w)"
    using e by (simp add: UpdateRecords_def request_no_session)
  obtain m where m: "flatten p = (Some m, True)"
    using flatten_Some by blast
  then show "\<exists>m. flatten p = (Some m, True) \<and>
        posted (snd (request c w ''login'' p)) = posted w @
          [(endpoint c, marshal_requestBody \<lparr>Action = ''login'', Param = common c m\<rparr>)]"
    by (simp add: request_dispatch)
qed

text \<open>The client of the tests, before any login, against a server that would answer.\<close>

theorem no_session_no_call_witness:
  "sessionID client = [] \<and>
   request client (server logout_response) ''logout'' None =
     (Err no_session, server logout_response) \<and>
   Logout client (server logout_response) = (Err no_session, client, server logout_response) \<and>
   GetRecords client (server logout_response) ''example.com'' =
     (Err no_session, client, server logout_response) \<and>
   UpdateRecords client (server logout_response) ''example.com'' (Some [updateRecord]) =
     (Err no_session, client, server logout_response)"
  using no_session_no_call [of client "''logout''" "server logout_response" None
      "''example.com''" "Some [updateRecord]"]
  by (simp add: client_def NewClient_def)

section \<open>The session token\<close>

text \<open>
  Claim C3. Login returns without error exactly when the dispatch gave a payload and the
  payload decoded, and the client then holds the decoded \<^verbatim>\<open>apisessionid\<close> as its session
  token in place of the one before. Logout returns without error exactly when the dispatch
  did, whatever the payload (a nil one too), and the client then holds the empty token.
  A Login or a Logout that does not return without error gives the client back as it
  was. GetRecords and UpdateRecords never change the token.
\<close>

theorem session_transitions:
  "(request c w ''login'' (Some (LoginParam pw)) = (Ok (Some buf), w') \<and>
      unmarshal_loginResponse buf = Inr rd \<longrightarrow>
      Login c w pw = (Ok (), c\<lparr>sessionID := APISessionID rd\<rparr>, w')) \<and>
   (Login c w pw = (Ok u, c', w') \<longrightarrow>
      (\<exists>buf rd. request c w ''login'' (Some (LoginParam pw)) = (Ok (Some buf), w') \<and>
         unmarshal_loginResponse buf = Inr rd \<and> c' = c\<lparr>sessionID := APISessionID rd\<rparr>)) \<and>
   (fst (Login c w pw) \<noteq> Ok () \<longrightarrow> fst (snd (Login c w pw)) = c) \<and>
   (request c w ''logout'' None = (Ok raw, w') \<longrightarrow>
      Logout c w = (Ok (), c\<lparr>sessionID := []\<rparr>, w')) \<and>
   (Logout c w = (Ok u, c', w') \<longrightarrow>
      (\<exists>raw. request c w ''logout'' None = (Ok raw, w')) \<and> c' = c\<lparr>sessionID := []\<rparr>) \<and>
   (fst (Logout c w) \<noteq> Ok () \<longrightarrow> fst (snd (Logout c w)) = c) \<and>
   sessionID (fst (snd (GetRecords c w d))) = sessionID c \<and>
   sessionID (fst (snd (UpdateRecords c w d rs))) = sessionID c"
proof (intro conjI impI)
  show "Login c w pw = (Ok (), c\<lparr>sessionID := APISessionID rd\<rparr>, w')"
    if "request c w ''login'' (Some (LoginParam pw)) = (Ok (Some buf), w') \<and>
      unmarshal_loginResponse buf = Inr rd"
    using that by (simp add: Login_def)
  show "\<exists>buf rd. request c w ''login'' (Some (LoginParam pw)) = (Ok (Some buf), w') \<and>
         unmarshal_loginResponse buf = Inr rd \<and> c' = c\<lparr>sessionID := APISessionID rd\<rparr>"
    if "Login c w pw = (Ok u, c', w')"
    using that
    by (auto simp: Login_def split: prod.splits result.splits option.splits sum.splits)
  show "fst (snd (Login c w pw)) = c" if "fst (Login c w pw) \<noteq> Ok ()"
    using that
    by (auto simp: Login_def split: prod.splits result.splits option.splits sum.splits)
  show "Logout c w = (Ok (), c\<lparr>sessionID := []\<rparr>, w')"
    if "request c w ''logout'' None = (Ok raw, w')"
    using that by (simp add: Logout_def)
  show "\<exists>raw. request c w ''logout'' None = (Ok raw, w')" if "Logout c w = (Ok u, c', w')"
    using that by (auto simp: Logout_def split: prod.splits result.splits)
  show "c' = c\<lparr>sessionID := []\<rparr>" if "Logout c w = (Ok u, c', w')"
    using that by (auto simp: Logout_def split: prod.splits result.splits)
  show "fst (snd (Logout c w)) = c" if "fst (Logout c w) \<noteq> Ok ()"
    using that by (auto simp: Logout_def split: prod.splits result.splits)
  show "sessionID (fst (snd (GetRecords c w d))) = sessionID c"
    by (simp add: GetRecords_def split: prod.splits result.splits option.splits sum.splits)
  show "sessionID (fst (snd (UpdateRecords c w d rs))) = sessionID c"
    by (simp add: UpdateRecords_def split: prod.splits result.splits option.splits sum.splits)
qed

lemma login_dispatch_at_test:
  "fst (request client (server login_response) ''login'' (Some (LoginParam ''password''))) =
     Ok (Some (JObj [(''apisessionid'', JStr ''thisisasessionid'')]))"
  by code_simp

lemma login_payload_at_test:
  "unmarshal_loginResponse (JObj [(''apisessionid'', JStr ''thisisasessionid'')]) =
     Inr \<lparr>APISessionID = ''thisisasessionid''\<rparr>"
  by code_simp

lemma logout_dispatch_at_test:
  "fst (request logged_in (server logout_response) ''logout'' None) = Ok (Some (JStr []))"
  by code_simp

text \<open>The login of the tests sets the token, the logout of the tests clears it.\<close>

theorem session_transitions_witness:
  "Login client (server login_response) ''password'' =
     (Ok (), client\<lparr>sessionID := ''thisisasessionid''\<rparr>,
      snd (request client (server login_response) ''login'' (Some (LoginParam ''password'')))) \<and>
   Logout logged_in (server logout_response) =
     (Ok (), logged_in\<lparr>sessionID := []\<rparr>,
      snd (request logged_in (server logout_response) ''logout'' None))"
proof -
  have "request client (server login_response) ''login'' (Some (LoginParam ''password'')) =
      (Ok (Some (JObj [(''apisessionid'', JStr ''thisisasessionid'')])),
       snd (request client (server login_response) ''login'' (Some (LoginParam ''password''))))"
    using login_dispatch_at_test by (simp add: prod_eq_iff)
  with login_payload_at_test
  have 1: "Login client (server login_response) ''password'' =
     (Ok (), client\<lparr>sessionID := ''thisisasessionid''\<rparr>,
      snd (request client (server login_response) ''login'' (Some (LoginParam ''password''))))"
    using session_transitions [of client "server login_response" "''password''"
        "JObj [(''apisessionid'', JStr ''thisisasessionid'')]"
        "snd (request client (server login_response) ''login'' (Some (LoginParam ''password'')))"
        "\<lparr>APISessionID = ''thisisasessionid''\<rparr>"]
    by simp
  have "request logged_in (server logout_response) ''logout'' None =
      (Ok (Some (JStr [])), snd (request logged_in (server logout_response) ''logout'' None))"
    using logout_dispatch_at_test by (simp add: prod_eq_iff)
  then have 2: "Logout logged_in (server logout_response) =
     (Ok (), logged_in\<lparr>sessionID := []\<rparr>,
      snd (request logged_in (server logout_response) ''logout'' None))"
    using session_transitions [where c = logged_in and w = "server logout_response"
        and w' = "snd (request logged_in (server logout_response) ''logout'' None)"
        and raw = "Some (JStr [])"]
    by blast
  from 1 2 show ?thesis by simp
qed

section \<open>What an operation leaves alone\<close>

text \<open>
  Claim C9. Whatever it returns, Login or Logout gives back the client it was given with
  at most the session token changed, and GetRecords or UpdateRecords the client it was
  given with at most the cached record list changed: customer number, API key, endpoint,
  transport handle and domain name are never written.
\<close>

theorem operations_frame:
  "fst (snd (Login c w pw)) = c\<lparr>sessionID := sessionID (fst (snd (Login c w pw)))\<rparr> \<and>
   fst (snd (Logout c w)) = c\<lparr>sessionID := sessionID (fst (snd (Logout c w)))\<rparr> \<and>
   fst (snd (GetRecords c w d)) = c\<lparr>records := records (fst (snd (GetRecords c w d)))\<rparr> \<and>
   fst (snd (UpdateRecords c w d rs)) =
     c\<lparr>records := records (fst (snd (UpdateRecords c w d rs)))\<rparr>"
  by (simp add: Login_def Logout_def GetRecords_def UpdateRecords_def
      split: prod.splits result.splits option.splits sum.splits)

section \<open>Status codes\<close>

lemma request_failed_text:
  "\<exists>t. request_failed action longMessage = Errorf t \<and> sublist action t \<and> sublist longMessage t"
proof -
  have "sublist action (''Request '' @ [CHR 0x22] @ action @ [CHR 0x22] @ '' failed: '' @ longMessage)"
    by (metis sublist_appendI append.assoc)
  moreover have "sublist longMessage
      (''Request '' @ [CHR 0x22] @ action @ [CHR 0x22] @ '' failed: '' @ longMessage)"
    by (metis sublist_appendI append.assoc append_Nil2)
  ultimately show ?thesis by (simp add: request_failed_def)
qed

lemma read_response_envelope:
  "unmarshal_responseBody j = Inr rb \<Longrightarrow>
   read_response action (Responds (JSON j)) =
     (if StatusCode rb \<noteq> 2000 then Err (request_failed action (LongMessage rb))
      else Ok (ResponseData rb))"
  by (simp add: read_response_def)

text \<open>
  Claim C4, as amended. When the request is dispatched and the body of the answer decodes
  into the envelope (every member that names a field is \<^verbatim>\<open>null\<close> or of the type of the
  field, the status code an integer literal in the range of \<^verbatim>\<open>int\<close>), status code 2000
  and nothing else makes \<^verbatim>\<open>request\<close> succeed, with the payload
  of the envelope. For every other status code \<^verbatim>\<open>request\<close> returns the error whose text
  is \<^verbatim>\<open>Request "<action>" failed: <long message>\<close>, which holds the action name and the
  long message of the envelope; Login, Logout, GetRecords and UpdateRecords return that
  error and the client as it was, session token and cached records included.
\<close>

theorem status_code_decides:
  "(sessionID c \<noteq> [] \<or> action = ''login'') \<and> flatten p = (Some m, True) \<and>
   respond w (posted w) (httpClient c) (endpoint c)
     (marshal_requestBody \<lparr>Action = action, Param = common c m\<rparr>) = Responds (JSON j) \<and>
   unmarshal_responseBody j = Inr rb \<longrightarrow>
   (StatusCode rb = 2000 \<longrightarrow> fst (request c w action p) = Ok (ResponseData rb)) \<and>
   (StatusCode rb \<noteq> 2000 \<longrightarrow>
      fst (request c w action p) = Err (request_failed action (LongMessage rb)) \<and>
      (\<exists>t. request_failed action (LongMessage rb) = Errorf t \<and> sublist action t \<and>
         sublist (LongMessage rb) t) \<and>
      (action = ''login'' \<and> p = Some (LoginParam pw) \<longrightarrow>
         fst (Login c w pw) = Err (request_failed action (LongMessage rb)) \<and>
         fst (snd (Login c w pw)) = c) \<and>
      (action = ''logout'' \<and> p = None \<longrightarrow>
         fst (Logout c w) = Err (request_failed action (LongMessage rb)) \<and>
         fst (snd (Logout c w)) = c) \<and>
      (action = ''infoDnsRecords'' \<and> p = Some (InfoParam d) \<longrightarrow>
         fst (GetRecords c w d) = Err (request_failed action (LongMessage rb)) \<and>
         fst (snd (GetRecords c w d)) = c) \<and>
      (action = ''updateDnsRecords'' \<and> p = Some (UpdateParam d rs) \<longrightarrow>
         fst (UpdateRecords c w d rs) = Err (request_failed action (LongMessage rb)) \<and>
         fst (snd (UpdateRecords c w d rs)) = c))"
proof (intro impI)
  assume a: "(sessionID c \<noteq> [] \<or> action = ''login'') \<and> flatten p = (Some m, True) \<and>
   respond w (posted w) (httpClient c) (endpoint c)
     (marshal_requestBody \<lparr>Action = action, Param = common c m\<rparr>) = Responds (JSON j) \<and>
   unmarshal_responseBody j = Inr rb"
  then have r: "fst (request c w action p) =
      (if StatusCode rb \<noteq> 2000 then Err (request_failed action (LongMessage rb))
       else Ok (ResponseData rb))"
    by (simp add: request_dispatch read_response_envelope)
  show "(StatusCode rb = 2000 \<longrightarrow> fst (request c w action p) = Ok (ResponseData rb)) \<and>
   (StatusCode rb \<noteq> 2000 \<longrightarrow>
      fst (request c w action p) = Err (request_failed action (LongMessage rb)) \<and>
      (\<exists>t. request_failed action (LongMessage rb) = Errorf t \<and> sublist action t \<and>
         sublist (LongMessage rb) t) \<and>
      (action = ''login'' \<and> p = Some (LoginParam pw) \<longrightarrow>
         fst (Login c w pw) = Err (request_failed action (LongMessage rb)) \<and>
         fst (snd (Login c w pw)) = c) \<and>
      (action = ''logout'' \<and> p = None \<longrightarrow>
         fst (Logout c w) = Err (request_failed action (LongMessage rb)) \<and>
         fst (snd (Logout c w)) = c) \<and>
      (action = ''infoDnsRecords'' \<and> p = Some (InfoParam d) \<longrightarrow>
         fst (GetRecords c w d) = Err (request_failed action (LongMessage rb)) \<and>
         fst (snd (GetRecords c w d)) = c) \<and>
      (action = ''updateDnsRecords'' \<and> p = Some (UpdateParam d rs) \<longrightarrow>
         fst (UpdateRecords c w d rs) = Err (request_failed action (LongMessage rb)) \<and>
         fst (snd (UpdateRecords c w d rs)) = c))"
  proof (intro conjI impI)
    show "fst (request c w action p) = Ok (ResponseData rb)" if "StatusCode rb = 2000"
      using r that by simp
    assume n: "StatusCode rb \<noteq> 2000"
    with r show e: "fst (request c w action p) = Err (request_failed action (LongMessage rb))"
      by simp
    show "\<exists>t. request_failed action (LongMessage rb) = Errorf t \<and> sublist action t \<and>
         sublist (LongMessage rb) t"
      by (rule request_failed_text)
    show "fst (Login c w pw) = Err (request_failed action (LongMessage rb))"
      if "action = ''login'' \<and> p = Some (LoginParam pw)"
      using e that by (auto simp: Login_def split: prod.splits)
    show "fst (snd (Login c w pw)) = c" if "action = ''login'' \<and> p = Some (LoginParam pw)"
      using e that by (auto simp: Login_def split: prod.splits)
    show "fst (Logout c w) = Err (request_failed action (LongMessage rb))"
      if "action = ''logout'' \<and> p = None"
      using e that by (auto simp: Logout_def split: prod.splits)
    show "fst (snd (Logout c w)) = c" if "action = ''logout'' \<and> p = None"
      using e that by (auto simp: Logout_def split: prod.splits)
    show "fst (GetRecords c w d) = Err (request_failed action (LongMessage rb))"
      if "action = ''infoDnsRecords'' \<and> p = Some (InfoParam d)"
      using e that by (auto simp: GetRecords_def split: prod.splits)
    show "fst (snd (GetRecords c w d)) = c"
      if "action = ''infoDnsRecords'' \<and> p = Some (InfoParam d)"
      using e that by (auto simp: GetRecords_def split: prod.splits)
    show "fst (UpdateRecords c w d rs) = Err (request_failed action (LongMessage rb))"
      if "action = ''updateDnsRecords'' \<and> p = Some (UpdateParam d rs)"
      using e that by (auto simp: UpdateRecords_def split: prod.splits)
    show "fst (snd (UpdateRecords c w d rs)) = c"
      if "action = ''updateDnsRecords'' \<and> p = Some (UpdateParam d rs)"
      using e that by (auto simp: UpdateRecords_def split: prod.splits)
  qed
qed


text \<open>A login that the server turns down with status code 4013.\<close>

lemma flatten_at_test:
  "flatten (Some (LoginParam ''password'')) =
     (Some [(''apipassword'', Decoded (JStr ''password''))], True)"
  by code_simp

lemma failure_response_decodes:
  "unmarshal_responseBody failure_response =
     Inr \<lparr>ServerRequestID = [], ClientRequestID = [], Action = ''login'', Status = ''success'',
          StatusCode = 4013, ShortMessage = ''Validation Error.'',
          LongMessage = ''The session id is not in a valid format.'',
          ResponseData = Some (JStr [])\<rparr>"
  by code_simp

theorem status_code_decides_witness:
  "fst (Login client (server failure_response) ''password'') =
     Err (request_failed ''login'' ''The session id is not in a valid format.'') \<and>
   fst (snd (Login client (server failure_response) ''password'')) = client"
proof -
  have "respond (server failure_response) (posted (server failure_response)) (httpClient client)
      (endpoint client)
      (marshal_requestBody \<lparr>Action = ''login'',
         Param = common client [(''apipassword'', Decoded (JStr ''password''))]\<rparr>) =
      Responds (JSON failure_response)"
    by (simp add: server_def)
  with flatten_at_test failure_response_decodes show ?thesis
    using status_code_decides [of client "''login''" "Some (LoginParam ''password'')"
        "[(''apipassword'', Decoded (JStr ''password''))]" "server failure_response"
        failure_response
        "\<lparr>ServerRequestID = [], ClientRequestID = [], Action = ''login'', Status = ''success'',
          StatusCode = 4013, ShortMessage = ''Validation Error.'',
          LongMessage = ''The session id is not in a valid format.'',
          ResponseData = Some (JStr [])\<rparr>" "''password''"]
    by simp
qed

section \<open>Payloads that are missing or odd\<close>

lemma request_never_panics: "\<forall>x. fst (request c w action p) \<noteq> Panic x"
proof -
  obtain m where "flatten p = (Some m, True)"
    using flatten_Some by blast
  then show ?thesis
    by (auto simp: request_def read_response_def
        split: prod.splits reply.splits body.splits sum.splits)
qed

lemma Login_panics_iff:
  "fst (Login c w pw) = Panic x \<longleftrightarrow>
     x = NilPointerDereference \<and> fst (request c w ''login'' (Some (LoginParam pw))) = Ok None"
proof -
  have "\<forall>y w'. request c w ''login'' (Some (LoginParam pw)) \<noteq> (Panic y, w')"
    using request_never_panics [of c w "''login''" "Some (LoginParam pw)"]
    by (metis fst_conv)
  then show ?thesis
    by (auto simp: Login_def split: prod.splits result.splits option.splits sum.splits)
qed

text \<open>
  Claim C8 asks that a payload that is absent or \<^verbatim>\<open>null\<close> makes Login, GetRecords and
  UpdateRecords return an error. They do not return: a successful envelope without a
  payload leaves \<^verbatim>\<open>ResponseData\<close> nil, \<^verbatim>\<open>request\<close> hands the nil pointer back with no
  error, and the three operations read through it. The four runs below end in that panic.
\<close>

theorem missing_payload_panics:
  "fst (Login client (server no_payload_response) ''password'') = Panic NilPointerDereference \<and>
   fst (Login client (server (JObj [(''statuscode'', JNum 2000)])) ''password'') =
     Panic NilPointerDereference \<and>
   fst (GetRecords logged_in (server (JObj [(''statuscode'', JNum 2000)])) ''example.com'') =
     Panic NilPointerDereference \<and>
   fst (UpdateRecords logged_in (server (JObj [(''statuscode'', JNum 2000)])) ''example.com''
     (Some [updateRecord])) = Panic NilPointerDereference"
  by code_simp

text \<open>
  The other failures of decoding are returned as errors: a body that is no JSON, and a
  payload of the wrong kind (the empty string that the logout answer carries, given to
  Login). An object of another shape is no failure: members that name no field are
  skipped.
\<close>

lemma decoding_failures_returned:
  "fst (Login client \<lparr>respond = (\<lambda>_ _ _ _. Responds NotJSON), posted = []\<rparr> ''password'') =
     Err SyntaxError \<and>
   fst (Login client (server logout_response) ''password'') = Err UnmarshalTypeError \<and>
   fst (GetRecords logged_in (server login_response) ''example.com'') = Ok []"
  by code_simp

section \<open>A login that brings no token\<close>

lemma foldName_apisessionid: "foldName ''apisessionid'' = ''APISESSIONID''"
  by (simp add: char_of_def bit_Suc_0_iff)

lemma find_field_apisessionid:
  "find_field [''apisessionid''] k =
     (if foldName k = foldName ''apisessionid'' then Some ''apisessionid'' else None)"
  by (auto simp: find_field_def)

lemma object_loginResponse_empty:
  "\<forall>(k, v)\<in>set kvs. foldName k = foldName ''apisessionid'' \<longrightarrow> v = JStr [] \<Longrightarrow>
   APISessionID r = [] \<Longrightarrow> object_loginResponse kvs (r, ok) = (r, ok)"
proof (induction kvs arbitrary: r ok)
  case Nil
  show ?case by simp
next
  case (Cons kv kvs)
  obtain k v where kv: "kv = (k, v)" by (cases kv)
  show ?case
  proof (cases "foldName k = foldName ''apisessionid''")
    case True
    with Cons.prems kv have "v = JStr []" by simp
    with True kv Cons show ?thesis
      by (simp add: find_field_apisessionid del: foldName.simps)
  next
    case False
    with kv Cons show ?thesis
      by (simp add: find_field_apisessionid del: foldName.simps)
  qed
qed

text \<open>
  Claim C10, as amended. If the dispatch of a Login succeeds and its payload is an object
  in which every member whose name matches \<^verbatim>\<open>apisessionid\<close> the way the decoder matches
  names (exactly, or after case folding) holds the empty string, none being the case of
  an object without such a member, then Login returns without error and leaves the
  session token empty, and on the client it leaves Logout, GetRecords and UpdateRecords
  fail with the no-session error and post nothing.
\<close>

theorem login_without_token:
  "request c w ''login'' (Some (LoginParam pw)) = (Ok (Some (JObj kvs)), w') \<and>
   (\<forall>(k, v)\<in>set kvs. foldName k = foldName ''apisessionid'' \<longrightarrow> v = JStr []) \<longrightarrow>
   Login c w pw = (Ok (), c\<lparr>sessionID := []\<rparr>, w') \<and>
   Logout (c\<lparr>sessionID := []\<rparr>) w2 = (Err no_session, c\<lparr>sessionID := []\<rparr>, w2) \<and>
   GetRecords (c\<lparr>sessionID := []\<rparr>) w2 d = (Err no_session, c\<lparr>sessionID := []\<rparr>, w2) \<and>
   UpdateRecords (c\<lparr>sessionID := []\<rparr>) w2 d rs =
     (Err no_session, c\<lparr>sessionID := []\<rparr>, w2)"
proof (intro impI conjI)
  assume a: "request c w ''login'' (Some (LoginParam pw)) = (Ok (Some (JObj kvs)), w') \<and>
   (\<forall>(k, v)\<in>set kvs. foldName k = foldName ''apisessionid'' \<longrightarrow> v = JStr [])"
  then have "object_loginResponse kvs (\<lparr>APISessionID = []\<rparr>, True) = (\<lparr>APISessionID = []\<rparr>, True)"
    by (intro object_loginResponse_empty) simp_all
  then have "unmarshal_loginResponse (JObj kvs) = Inr \<lparr>APISessionID = []\<rparr>"
    by (simp add: unmarshal_loginResponse_def)
  with a show "Login c w pw = (Ok (), c\<lparr>sessionID := []\<rparr>, w')"
    by (simp add: Login_def)
  show "Logout (c\<lparr>sessionID := []\<rparr>) w2 = (Err no_session, c\<lparr>sessionID := []\<rparr>, w2)"
    by (simp add: Logout_def request_no_session)
  show "GetRecords (c\<lparr>sessionID := []\<rparr>) w2 d = (Err no_session, c\<lparr>sessionID := []\<rparr>, w2)"
    by (simp add: GetRecords_def request_no_session)
  show "UpdateRecords (c\<lparr>sessionID := []\<rparr>) w2 d rs =
     (Err no_session, c\<lparr>sessionID := []\<rparr>, w2)"
    by (simp add: UpdateRecords_def request_no_session)
qed

text \<open>
  Claim C10, as stated, fails: a payload with the single member \<^verbatim>\<open>APISESSIONID\<close> has no
  member named \<^verbatim>\<open>apisessionid\<close>, and Login takes its value for the session token; the
  Logout that follows is dispatched.
\<close>

theorem login_without_token_counterexample:
  "''apisessionid'' \<notin> fst ` set [(''APISESSIONID'', JStr ''thisisasessionid'')] \<and>
   fst (request client (server upper_case_login_response) ''login''
     (Some (LoginParam ''password''))) =
     Ok (Some (JObj [(''APISESSIONID'', JStr ''thisisasessionid'')])) \<and>
   fst (Login client (server upper_case_login_response) ''password'') = Ok () \<and>
   sessionID (fst (snd (Login client (server upper_case_login_response) ''password''))) =
     ''thisisasessionid'' \<and>
   fst (Logout (fst (snd (Login client (server upper_case_login_response) ''password'')))
     (server logout_response)) = Ok ()"
  by code_simp

text \<open>A payload with a member of another name and an empty token.\<close>

lemma empty_login_dispatch:
  "fst (request client (server empty_login_response) ''login'' (Some (LoginParam ''password''))) =
     Ok (Some (JObj [(''sessionid'', JStr ''thisisasessionid''), (''apisessionid'', JStr [])]))"
  by code_simp

lemma empty_login_members:
  "\<forall>(k, v)\<in>set [(''sessionid'', JStr ''thisisasessionid''), (''apisessionid'', JStr [])].
     foldName k = foldName ''apisessionid'' \<longrightarrow> v = JStr []"
  by code_simp

theorem login_without_token_witness:
  "Login client (server empty_login_response) ''password'' =
     (Ok (), client\<lparr>sessionID := []\<rparr>,
      snd (request client (server empty_login_response) ''login''
        (Some (LoginParam ''password'')))) \<and>
   Logout (client\<lparr>sessionID := []\<rparr>) (server logout_response) =
     (Err no_session, client\<lparr>sessionID := []\<rparr>, server logout_response)"
proof -
  have "request client (server empty_login_response) ''login'' (Some (LoginParam ''password'')) =
      (Ok (Some (JObj [(''sessionid'', JStr ''thisisasessionid''), (''apisessionid'', JStr [])])),
       snd (request client (server empty_login_response) ''login''
         (Some (LoginParam ''password''))))"
    using empty_login_dispatch by (simp add: prod_eq_iff)
  with empty_login_members show ?thesis
    using login_without_token [where c = client and w = "server empty_login_response"
        and pw = "''password''"
        and kvs = "[(''sessionid'', JStr ''thisisasessionid''), (''apisessionid'', JStr [])]"
        and w' = "snd (request client (server empty_login_response) ''login''
         (Some (LoginParam ''password'')))" and ?w2.0 = "server logout_response"]
    by blast
qed

section \<open>The parameters on the wire\<close>

lemma distinct_keys_sort_key:
  "distinct (map fst (sort_key fst xs)) \<longleftrightarrow> distinct (map fst xs)"
  by (simp add: distinct_map)

lemma map_of_sort_key:
  assumes "distinct (map fst xs)"
  shows "map_of (sort_key fst xs) = map_of xs"
proof -
  have "distinct (map fst (sort_key fst xs))"
    using assms by (simp add: distinct_keys_sort_key)
  then show ?thesis
    using assms by (simp add: map_of_inject_set)
qed

lemma map_of_map_prod:
  "map_of (map (map_prod id f) xs) k = map_option f (map_of xs k)"
  by (induction xs) auto

lemma keys_fold_update:
  "fst ` set (fold (\<lambda>(k, v). AList.update k (g v)) kvs acc) = fst ` set kvs \<union> fst ` set acc"
proof (induction kvs arbitrary: acc)
  case Nil
  show ?case by simp
next
  case (Cons kv kvs)
  obtain k v where kv: "kv = (k, v)" by (cases kv)
  have "fst ` set (fold (\<lambda>(k, v). AList.update k (g v)) (kv # kvs) acc) =
      fst ` set kvs \<union> fst ` set (AList.update k (g v) acc)"
    using Cons.IH [of "AList.update k (g v) acc"] kv by simp
  also have "\<dots> = fst ` set kvs \<union> ({k} \<union> fst ` set acc)"
    by (simp only: dom_update)
  also have "\<dots> = fst ` set (kv # kvs) \<union> fst ` set acc"
    using kv by auto
  finally show ?case .
qed

lemma distinct_fold_update:
  "distinct (map fst acc) \<Longrightarrow>
   distinct (map fst (fold (\<lambda>(k, v). AList.update k (g v)) kvs acc))"
  by (induction kvs arbitrary: acc) (auto simp: distinct_update)

lemma flatten_keys:
  assumes "flatten p = (Some m, True)"
  shows "distinct (map fst m) \<and>
    (\<forall>x kvs. p = Some x \<and> marshal_param x = JObj kvs \<longrightarrow> fst ` set kvs = fst ` set m)"
proof (cases p)
  case None
  with assms show ?thesis by (simp add: flatten_def)
next
  case (Some x)
  obtain kvs where kvs: "marshal_param x = JObj kvs"
    by (cases x) simp_all
  with Some assms have m: "m = fold (\<lambda>(k, v). AList.update k (Decoded v)) kvs []"
    by (simp add: flatten_def)
  have "distinct (map fst m)"
    unfolding m by (rule distinct_fold_update) simp
  moreover have "fst ` set kvs = fst ` set m"
    unfolding m by (simp add: keys_fold_update)
  ultimately show ?thesis using Some kvs by simp
qed

lemma common_distinct: "distinct (map fst m) \<Longrightarrow> distinct (map fst (common c m))"
  by (simp add: common_def Let_def distinct_update)

lemma common_map_of:
  "map_of (common c m) =
     (if sessionID c \<noteq> []
      then (map_of m)(''customernumber'' \<mapsto> GoInt (customerNumber c),
             ''apikey'' \<mapsto> GoString (apiKey c), ''apisessionid'' \<mapsto> GoString (sessionID c))
      else (map_of m)(''customernumber'' \<mapsto> GoInt (customerNumber c),
             ''apikey'' \<mapsto> GoString (apiKey c)))"
  by (simp add: common_def Let_def update_conv')

lemma common_keys:
  "fst ` set m \<subseteq> fst ` set (common c m)"
  by (auto simp: common_def Let_def dom_update)


lemma wire_param:
  fixes c :: Client and m :: gomap
  assumes "distinct (map fst m)"
  defines "ps \<equiv> sort_key fst (map (map_prod id marshal_goval) (common c m))"
  shows "distinct (map fst ps)"
    and "map_of ps k = map_option marshal_goval (map_of (common c m) k)"
    and "fst ` set m \<subseteq> fst ` set ps"
proof -
  have keys: "map fst (map (map_prod id marshal_goval) (common c m)) = map fst (common c m)"
    by simp
  have d: "distinct (map fst (map (map_prod id marshal_goval) (common c m)))"
    unfolding keys using assms(1) by (rule common_distinct)
  then show "distinct (map fst ps)"
    unfolding ps_def by (simp only: distinct_keys_sort_key)
  show "map_of ps k = map_option marshal_goval (map_of (common c m) k)"
    unfolding ps_def using d by (simp only: map_of_sort_key map_of_map_prod)
  have "fst ` set ps = set (map fst (map (map_prod id marshal_goval) (common c m)))"
    unfolding ps_def by (simp add: image_image)
  then have "fst ` set ps = fst ` set (common c m)"
    unfolding keys by simp
  then show "fst ` set m \<subseteq> fst ` set ps"
    using common_keys by simp
qed

text \<open>
  Claim C2, as amended. Every request that is dispatched posts the object
  \<^verbatim>\<open>{"action": ..., "param": {...}}\<close> whose \<^verbatim>\<open>param\<close> has one member for a name and holds
  \<^verbatim>\<open>customernumber\<close> with the customer number of the client, \<^verbatim>\<open>apikey\<close> with its API key as
  the encoder writes a string (every byte outside a well-formed rune replaced by U+FFFD:
  the key itself when it is valid UTF-8), and \<^verbatim>\<open>apisessionid\<close> with the session token
  written the same way when the token is not empty, no member of that name when it is
  empty; every name of the parameter the caller gave is a name of \<^verbatim>\<open>param\<close>.
\<close>

theorem common_fields_on_the_wire:
  "sessionID c \<noteq> [] \<or> action = ''login'' \<longrightarrow>
   (\<exists>ps. posted (snd (request c w action p)) = posted w @
        [(endpoint c, JObj [(''action'', JStr (coerceUTF8 action)), (''param'', JObj ps)])] \<and>
      distinct (map fst ps) \<and>
      map_of ps ''customernumber'' = Some (JNum (customerNumber c)) \<and>
      map_of ps ''apikey'' = Some (JStr (coerceUTF8 (apiKey c))) \<and>
      map_of ps ''apisessionid'' =
        (if sessionID c = [] then None else Some (JStr (coerceUTF8 (sessionID c)))) \<and>
      (ValidString (apiKey c) \<longrightarrow> map_of ps ''apikey'' = Some (JStr (apiKey c))) \<and>
      (sessionID c \<noteq> [] \<and> ValidString (sessionID c) \<longrightarrow>
         map_of ps ''apisessionid'' = Some (JStr (sessionID c))) \<and>
      (\<forall>x kvs. p = Some x \<and> marshal_param x = JObj kvs \<longrightarrow> fst ` set kvs \<subseteq> fst ` set ps))"
proof
  assume a: "sessionID c \<noteq> [] \<or> action = ''login''"
  obtain m where m: "flatten p = (Some m, True)"
    using flatten_Some by blast
  define ps where "ps = sort_key fst (map (map_prod id marshal_goval) (common c m))"
  from m have dm: "distinct (map fst m)"
    and ks: "\<forall>x kvs. p = Some x \<and> marshal_param x = JObj kvs \<longrightarrow> fst ` set kvs = fst ` set m"
    using flatten_keys by blast+
  have 1: "posted (snd (request c w action p)) = posted w @
        [(endpoint c, JObj [(''action'', JStr (coerceUTF8 action)), (''param'', JObj ps)])]"
    using a m by (simp add: request_dispatch marshal_requestBody_def ps_def)
  have 2: "distinct (map fst ps)"
    unfolding ps_def using dm by (rule wire_param(1))
  have look: "map_of ps k = map_option marshal_goval (map_of (common c m) k)" for k
    unfolding ps_def using dm by (rule wire_param(2))
  have none: "map_of m ''apisessionid'' = None" if "sessionID c = []"
  proof (cases p)
    case None
    with m show ?thesis by (simp add: flatten_def)
  next
    case (Some x)
    with m show ?thesis by (cases x) (auto simp: flatten_def)
  qed
  have 3: "map_of ps ''customernumber'' = Some (JNum (customerNumber c))"
    by (simp add: look common_map_of)
  have 4: "map_of ps ''apikey'' = Some (JStr (coerceUTF8 (apiKey c)))"
    by (simp add: look common_map_of)
  have 5: "map_of ps ''apisessionid'' =
        (if sessionID c = [] then None else Some (JStr (coerceUTF8 (sessionID c))))"
    using none by (simp add: look common_map_of)
  have 6: "ValidString (apiKey c) \<longrightarrow> map_of ps ''apikey'' = Some (JStr (apiKey c))"
    using 4 coerceUTF8_id_iff [of "apiKey c"] by simp
  have 7: "sessionID c \<noteq> [] \<and> ValidString (sessionID c) \<longrightarrow>
         map_of ps ''apisessionid'' = Some (JStr (sessionID c))"
    using 5 coerceUTF8_id_iff [of "sessionID c"] by simp
  have "fst ` set m \<subseteq> fst ` set ps"
    unfolding ps_def using dm by (rule wire_param(3))
  with ks have 8: "\<forall>x kvs. p = Some x \<and> marshal_param x = JObj kvs \<longrightarrow>
      fst ` set kvs \<subseteq> fst ` set ps"
    by metis
  from 1 2 3 4 5 6 7 8 show "\<exists>ps. posted (snd (request c w action p)) = posted w @
        [(endpoint c, JObj [(''action'', JStr (coerceUTF8 action)), (''param'', JObj ps)])] \<and>
      distinct (map fst ps) \<and>
      map_of ps ''customernumber'' = Some (JNum (customerNumber c)) \<and>
      map_of ps ''apikey'' = Some (JStr (coerceUTF8 (apiKey c))) \<and>
      map_of ps ''apisessionid'' =
        (if sessionID c = [] then None else Some (JStr (coerceUTF8 (sessionID c)))) \<and>
      (ValidString (apiKey c) \<longrightarrow> map_of ps ''apikey'' = Some (JStr (apiKey c))) \<and>
      (sessionID c \<noteq> [] \<and> ValidString (sessionID c) \<longrightarrow>
         map_of ps ''apisessionid'' = Some (JStr (sessionID c))) \<and>
      (\<forall>x kvs. p = Some x \<and> marshal_param x = JObj kvs \<longrightarrow> fst ` set kvs \<subseteq> fst ` set ps)"
    by blast
qed


text \<open>The logout of the tests.\<close>

lemma coerceUTF8_at_test:
  "coerceUTF8 ''logout'' = ''logout'' \<and> coerceUTF8 ''key'' = ''key'' \<and>
   coerceUTF8 ''thisisasessionid'' = ''thisisasessionid''"
  by code_simp

theorem common_fields_on_the_wire_witness:
  "\<exists>ps. posted (snd (request logged_in (server logout_response) ''logout'' None)) =
       [(''http://127.0.0.1'', JObj [(''action'', JStr ''logout''), (''param'', JObj ps)])] \<and>
     map_of ps ''customernumber'' = Some (JNum 1234) \<and>
     map_of ps ''apikey'' = Some (JStr ''key'') \<and>
     map_of ps ''apisessionid'' = Some (JStr ''thisisasessionid'')"
  using common_fields_on_the_wire [where c = logged_in and action = "''logout''"
      and w = "server logout_response" and p = None] coerceUTF8_at_test
  by (simp add: logged_in_def client_def NewClient_def server_def del: coerceUTF8.simps) blast

text \<open>
  Claim C2, as stated, fails: for a client made with the API key \<^verbatim>\<open>0xFF\<close> (one byte, not
  valid UTF-8), the \<^verbatim>\<open>apikey\<close> posted is U+FFFD, not the key of the client.
\<close>

theorem common_fields_on_the_wire_counterexample:
  "posted (snd (snd (Login ((NewClient 0 1234 [CHR 0xFF])\<lparr>endpoint := ''http://127.0.0.1''\<rparr>)
     (server login_response) ''password''))) =
     [(''http://127.0.0.1'', JObj
        [(''action'', JStr ''login''),
         (''param'', JObj
            [(''apikey'', JStr [CHR 0xEF, CHR 0xBF, CHR 0xBD]),
             (''apipassword'', JStr ''password''), (''customernumber'', JNum 1234)])])] \<and>
   apiKey ((NewClient 0 1234 [CHR 0xFF])\<lparr>endpoint := ''http://127.0.0.1''\<rparr>) \<noteq>
     [CHR 0xEF, CHR 0xBF, CHR 0xBD]"
  by code_simp

section \<open>The records\<close>













text \<open>
  When the payload names the records twice, the second array is decoded into the elements
  that the first left: the record returned has the hostname of the first array and the
  id of the second.
\<close>

lemma repeated_member_merges:
  "unmarshal_recordsResponse (JObj
     [(''dnsrecords'', JArr [JObj [(''hostname'', JStr ''a'')]]),
      (''dnsrecords'', JArr [JObj [(''id'', JStr ''3'')]])]) =
   Inr \<lparr>DNSRecords = [Record_zero\<lparr>ID := ''3'', Hostname := ''a''\<rparr>]\<rparr>"
  by code_simp





section \<open>Envelopes that do not decode\<close>

text \<open>
  A body that is JSON and does not decode into the envelope makes \<^verbatim>\<open>request\<close> return the
  error of the decoder, before the status code is looked at.
\<close>

lemma undecoded_envelope_is_error:
  assumes "sessionID c \<noteq> [] \<or> action = ''login''" and "flatten p = (Some m, True)"
    and "respond w (posted w) (httpClient c) (endpoint c)
      (marshal_requestBody \<lparr>Action = action, Param = common c m\<rparr>) = Responds (JSON j)"
    and "unmarshal_responseBody j = Inl e"
  shows "fst (request c w action p) = Err e"
  using assms by (simp add: request_dispatch read_response_def)

text \<open>
  Claim C4, as stated, fails: an answer with status code 4013 and the long message
  \<^verbatim>\<open>bad\<close> whose \<^verbatim>\<open>status\<close> is a number, or one whose status code is \<^verbatim>\<open>2^63\<close>, makes every
  operation return the \<^verbatim>\<open>UnmarshalTypeError\<close> of the decoder (in Go its text is
  \<^verbatim>\<open>json: cannot unmarshal number into Go struct field responseBody.status of type string\<close>),
  which is not the error that names the action and carries the long message.
\<close>

theorem status_code_decides_counterexample:
  "StatusCode (fst (value_responseBody ill_typed_response responseBody_zero)) = 4013 \<and>
   LongMessage (fst (value_responseBody ill_typed_response responseBody_zero)) = ''bad'' \<and>
   fst (Login client (server ill_typed_response) ''password'') = Err UnmarshalTypeError \<and>
   fst (Logout logged_in (server ill_typed_response)) = Err UnmarshalTypeError \<and>
   fst (GetRecords logged_in (server ill_typed_response) ''example.com'') =
     Err UnmarshalTypeError \<and>
   fst (UpdateRecords logged_in (server ill_typed_response) ''example.com''
     (Some [updateRecord])) = Err UnmarshalTypeError \<and>
   fst (Login client (server oversized_status_response) ''password'') = Err UnmarshalTypeError \<and>
   Err UnmarshalTypeError \<noteq> (Err (request_failed ''login'' ''bad'') :: unit result)"
  by code_simp

end
